theory Spec2Isabelle
  imports Main "HOL-Library.Word"
begin

unbundle bit_operations_syntax

section \<open>The simulated register bank of the 6-core heterogeneous system driver\<close>

text \<open>
  The development embeds the kernel module \<^verbatim>\<open>hetero_regs.c\<close> (the second file of
  \<^verbatim>\<open>src/driver_v3/test_regs.c\<close>) together with the register access macros of its
  user-space test program. C types: \<^verbatim>\<open>u32\<close> is \<open>32 word\<close>, \<^verbatim>\<open>u8\<close> is \<open>8 word\<close>,
  \<^verbatim>\<open>int\<close> and \<^verbatim>\<open>atomic_t\<close> are \<open>32 word\<close> read in two's complement by \<open>sint\<close>,
  \<^verbatim>\<open>unsigned long\<close> (\<^verbatim>\<open>jiffies\<close>) is \<open>64 word\<close>.
\<close>

type_synonym u8 = "8 word"
type_synonym u32 = "32 word"
type_synonym c_int = "32 word"
type_synonym c_ulong = "64 word"

subsection \<open>Region sizes\<close>

definition REG_SPACE_SIZE :: nat where
  "REG_SPACE_SIZE = 4096"

definition SHARED_MEM_SIZE :: nat where
  "SHARED_MEM_SIZE = 32 * 1024"

definition TOTAL_SIZE :: nat where
  "TOTAL_SIZE = REG_SPACE_SIZE + SHARED_MEM_SIZE"

subsection \<open>\<^verbatim>\<open>struct hetero_hw_regs\<close>: field layout\<close>

text \<open>
  The structure is declared \<^verbatim>\<open>__attribute__((packed))\<close>: a field starts where the
  previous one ends. The list gives every field with its size in bytes, in the order of
  the declaration; the last field is \<^verbatim>\<open>u8 padding[4096 - 0x4C]\<close>.
\<close>

definition hetero_hw_regs_fields :: "(string \<times> nat) list" where
  "hetero_hw_regs_fields =
    [(''ipi_status'', 4), (''ipi_trigger'', 4), (''ipi_clear'', 4), (''ipi_enable'', 4),
     (''mbox_main_to_core0_cmd'', 4), (''mbox_main_to_core0_data'', 4),
     (''mbox_core0_to_main_status'', 4), (''mbox_core0_to_main_resp'', 4),
     (''mbox_main_to_core1_cmd'', 4), (''mbox_main_to_core1_data'', 4),
     (''mbox_core1_to_main_status'', 4), (''mbox_core1_to_main_resp'', 4),
     (''hw_mutex_request'', 4), (''hw_mutex_status'', 4), (''hw_mutex_release'', 4),
     (''padding'', 4096 - 0x4C)]"

fun packed_offset :: "(string \<times> nat) list \<Rightarrow> string \<Rightarrow> nat option" where
  "packed_offset [] f = None"
| "packed_offset ((n, sz) # fs) f =
     (if n = f then Some 0
      else (case packed_offset fs f of None \<Rightarrow> None | Some off \<Rightarrow> Some (sz + off)))"

definition offsetof :: "string \<Rightarrow> nat option" where
  "offsetof f = packed_offset hetero_hw_regs_fields f"

definition sizeof_hetero_hw_regs :: nat where
  "sizeof_hetero_hw_regs = sum_list (map snd hetero_hw_regs_fields)"

text \<open>
  \<^verbatim>\<open>hetero_init\<close> sets \<^verbatim>\<open>regs = mem_base\<close> and \<^verbatim>\<open>shared_mem = mem_base + REG_SPACE_SIZE\<close>;
  \<^verbatim>\<open>HETERO_IOC_GET_INFO\<close> reports the same two offsets.
\<close>

definition regs_offset :: nat where
  "regs_offset = 0"

definition shared_mem_offset :: nat where
  "shared_mem_offset = REG_SPACE_SIZE"

subsection \<open>The register structure and the device\<close>

record hetero_hw_regs =
  ipi_status :: u32
  ipi_trigger :: u32
  ipi_clear :: u32
  ipi_enable :: u32
  mbox_main_to_core0_cmd :: u32
  mbox_main_to_core0_data :: u32
  mbox_core0_to_main_status :: u32
  mbox_core0_to_main_resp :: u32
  mbox_main_to_core1_cmd :: u32
  mbox_main_to_core1_data :: u32
  mbox_core1_to_main_status :: u32
  mbox_core1_to_main_resp :: u32
  hw_mutex_request :: u32
  hw_mutex_status :: u32
  hw_mutex_release :: u32
  padding :: "u8 list"

text \<open>
  The device owns one block of \<open>TOTAL_SIZE\<close> bytes at \<^verbatim>\<open>mem_base\<close>. The structure
  overlays its first \<open>sizeof_hetero_hw_regs\<close> bytes (\<open>regs\<close>); \<open>reg_tail\<close> holds the bytes
  of the register page that lie behind the structure, up to \<open>REG_SPACE_SIZE\<close>;
  \<open>shared_mem\<close> holds the \<open>SHARED_MEM_SIZE\<close> bytes from \<open>REG_SPACE_SIZE\<close> on.
  \<open>core0_work\<close> and \<open>core1_work\<close> tell whether the work item is queued
  (\<^verbatim>\<open>schedule_work\<close> queues an item that is not queued yet and leaves a queued one alone).
\<close>

record hetero_device =
  regs :: hetero_hw_regs
  reg_tail :: "u8 list"
  shared_mem :: "u8 list"
  core0_work :: bool
  core1_work :: bool
  ipi_count :: c_int
  msg_count :: c_int

subsection \<open>Raw register access through the mapping\<close>

text \<open>
  The test program reaches the registers through the mapped block with
  \<^verbatim>\<open>REG_READ32(base, offset)\<close> and \<^verbatim>\<open>REG_WRITE32(base, offset, val)\<close>. The model covers the
  fifteen 32-bit registers at their offsets; any other offset (the padding, or an access
  that straddles two registers) gives \<open>None\<close>.
\<close>

definition REG_READ32 :: "hetero_device \<Rightarrow> nat \<Rightarrow> u32 option" where
  "REG_READ32 dev off =
    (let r = regs dev in
     if off = 0x00 then Some (ipi_status r)
     else if off = 0x04 then Some (ipi_trigger r)
     else if off = 0x08 then Some (ipi_clear r)
     else if off = 0x0C then Some (ipi_enable r)
     else if off = 0x10 then Some (mbox_main_to_core0_cmd r)
     else if off = 0x14 then Some (mbox_main_to_core0_data r)
     else if off = 0x18 then Some (mbox_core0_to_main_status r)
     else if off = 0x1C then Some (mbox_core0_to_main_resp r)
     else if off = 0x20 then Some (mbox_main_to_core1_cmd r)
     else if off = 0x24 then Some (mbox_main_to_core1_data r)
     else if off = 0x28 then Some (mbox_core1_to_main_status r)
     else if off = 0x2C then Some (mbox_core1_to_main_resp r)
     else if off = 0x30 then Some (hw_mutex_request r)
     else if off = 0x34 then Some (hw_mutex_status r)
     else if off = 0x38 then Some (hw_mutex_release r)
     else None)"

definition REG_WRITE32 :: "hetero_device \<Rightarrow> nat \<Rightarrow> u32 \<Rightarrow> hetero_device option" where
  "REG_WRITE32 dev off val =
    (let r = regs dev in
     if off = 0x00 then Some (dev\<lparr>regs := r\<lparr>ipi_status := val\<rparr>\<rparr>)
     else if off = 0x04 then Some (dev\<lparr>regs := r\<lparr>ipi_trigger := val\<rparr>\<rparr>)
     else if off = 0x08 then Some (dev\<lparr>regs := r\<lparr>ipi_clear := val\<rparr>\<rparr>)
     else if off = 0x0C then Some (dev\<lparr>regs := r\<lparr>ipi_enable := val\<rparr>\<rparr>)
     else if off = 0x10 then Some (dev\<lparr>regs := r\<lparr>mbox_main_to_core0_cmd := val\<rparr>\<rparr>)
     else if off = 0x14 then Some (dev\<lparr>regs := r\<lparr>mbox_main_to_core0_data := val\<rparr>\<rparr>)
     else if off = 0x18 then Some (dev\<lparr>regs := r\<lparr>mbox_core0_to_main_status := val\<rparr>\<rparr>)
     else if off = 0x1C then Some (dev\<lparr>regs := r\<lparr>mbox_core0_to_main_resp := val\<rparr>\<rparr>)
     else if off = 0x20 then Some (dev\<lparr>regs := r\<lparr>mbox_main_to_core1_cmd := val\<rparr>\<rparr>)
     else if off = 0x24 then Some (dev\<lparr>regs := r\<lparr>mbox_main_to_core1_data := val\<rparr>\<rparr>)
     else if off = 0x28 then Some (dev\<lparr>regs := r\<lparr>mbox_core1_to_main_status := val\<rparr>\<rparr>)
     else if off = 0x2C then Some (dev\<lparr>regs := r\<lparr>mbox_core1_to_main_resp := val\<rparr>\<rparr>)
     else if off = 0x30 then Some (dev\<lparr>regs := r\<lparr>hw_mutex_request := val\<rparr>\<rparr>)
     else if off = 0x34 then Some (dev\<lparr>regs := r\<lparr>hw_mutex_status := val\<rparr>\<rparr>)
     else if off = 0x38 then Some (dev\<lparr>regs := r\<lparr>hw_mutex_release := val\<rparr>\<rparr>)
     else None)"

text \<open>The offset macros of the test program used below.\<close>

definition HW_MUTEX_REQ :: nat where "HW_MUTEX_REQ = 0x30"
definition HW_MUTEX_STAT :: nat where "HW_MUTEX_STAT = 0x34"
definition HW_MUTEX_REL :: nat where "HW_MUTEX_REL = 0x38"

subsection \<open>The simulated remote cores\<close>

text \<open>
  \<^verbatim>\<open>core0_response_work\<close> (the I/O core): reads the command; a non-zero command is
  answered (\<^verbatim>\<open>switch (cmd)\<close>), cleared, and the status register is set to 1; at the end
  bit 0 of \<^verbatim>\<open>ipi_status\<close> is cleared. \<^verbatim>\<open>jiffies\<close> is the kernel's tick counter at the
  time of the answer; the \<^verbatim>\<open>unsigned long\<close> value \<^verbatim>\<open>0x8010 | (jiffies & 0xFF)\<close> is
  truncated to the 32-bit register.
\<close>

definition core0_response_work :: "c_ulong \<Rightarrow> hetero_device \<Rightarrow> hetero_device" where
  "core0_response_work jiffies dev =
    (let r = regs dev;
         cmd = mbox_main_to_core0_cmd r;
         r' = (if cmd \<noteq> 0 then
                 r\<lparr>mbox_core0_to_main_resp :=
                      (if cmd = 0x0001 then 0x8001
                       else if cmd = 0x0010 then ucast (0x8010 OR (jiffies AND 0xFF))
                       else 0xFFFF),
                    mbox_main_to_core0_cmd := 0,
                    mbox_core0_to_main_status := 1\<rparr>
               else r)
     in dev\<lparr>regs := r'\<lparr>ipi_status := ipi_status r' AND NOT 0x01\<rparr>\<rparr>)"

text \<open>
  \<^verbatim>\<open>core1_response_work\<close> (the real-time core) does not read its mailbox: it answers
  at once with \<^verbatim>\<open>0x5200 | (jiffies & 0xFF)\<close>, sets the status register to 1 and clears
  bit 1 of \<^verbatim>\<open>ipi_status\<close>.
\<close>

definition core1_response_work :: "c_ulong \<Rightarrow> hetero_device \<Rightarrow> hetero_device" where
  "core1_response_work jiffies dev =
    (let r = regs dev;
         r' = r\<lparr>mbox_core1_to_main_resp := ucast (0x5200 OR (jiffies AND 0xFF)),
                mbox_core1_to_main_status := 1\<rparr>
     in dev\<lparr>regs := r'\<lparr>ipi_status := ipi_status r' AND NOT 0x02\<rparr>\<rparr>)"

text \<open>
  The kernel worker takes a queued item off the queue and calls its function.
\<close>

definition run_core0_work :: "c_ulong \<Rightarrow> hetero_device \<Rightarrow> hetero_device" where
  "run_core0_work jiffies dev =
    (if core0_work dev then core0_response_work jiffies (dev\<lparr>core0_work := False\<rparr>)
     else dev)"

definition run_core1_work :: "c_ulong \<Rightarrow> hetero_device \<Rightarrow> hetero_device" where
  "run_core1_work jiffies dev =
    (if core1_work dev then core1_response_work jiffies (dev\<lparr>core1_work := False\<rparr>)
     else dev)"

subsection \<open>\<^verbatim>\<open>hetero_ioctl\<close>\<close>

datatype errno = EFAULT | EINVAL | ENOMEM | Errno int

text \<open>
  The request codes are built by the kernel's \<^verbatim>\<open>_IOR\<close>, \<^verbatim>\<open>_IOW\<close> and \<^verbatim>\<open>_IO\<close> macros; the
  model names the three that \<^verbatim>\<open>hetero_ioctl\<close> handles and keeps every other code,
  \<^verbatim>\<open>HETERO_IOC_CORE_STATUS\<close> among them, as \<open>IOC_OTHER\<close>.
\<close>

datatype ioctl_cmd =
  HETERO_IOC_GET_INFO | HETERO_IOC_SEND_IPI | HETERO_IOC_RESET | IOC_OTHER u32

record hetero_info =
  num_cores :: int
  reg_size :: int
  shared_size :: int
  reg_base :: nat
  shared_base :: nat

text \<open>
  Result of a call: \<open>Failed e\<close> is the return value \<open>-e\<close> (the device is as before the
  call); \<open>Returned info dev\<close> is the return value 0 with the structure copied to the
  caller, if any, and the device after the call; \<open>Undefined_shift\<close> marks the calls in
  which the C expression \<^verbatim>\<open>1 << core_id\<close> has no defined value (a negative shift count,
  or one of 32 or more). For a count of 31 the kernel's compiler gives the sign bit,
  which the assignment to the \<^verbatim>\<open>u32\<close> register turns into 0x80000000.
\<close>

datatype ioctl_result =
  Failed errno | Returned "hetero_info option" hetero_device | Undefined_shift

text \<open>\<^verbatim>\<open>memset(dev->regs, 0, sizeof(struct hetero_hw_regs))\<close>.\<close>

definition zeroed_regs :: hetero_hw_regs where
  "zeroed_regs =
    \<lparr>ipi_status = 0, ipi_trigger = 0, ipi_clear = 0, ipi_enable = 0,
     mbox_main_to_core0_cmd = 0, mbox_main_to_core0_data = 0,
     mbox_core0_to_main_status = 0, mbox_core0_to_main_resp = 0,
     mbox_main_to_core1_cmd = 0, mbox_main_to_core1_data = 0,
     mbox_core1_to_main_status = 0, mbox_core1_to_main_resp = 0,
     hw_mutex_request = 0, hw_mutex_status = 0, hw_mutex_release = 0,
     padding = replicate (4096 - 0x4C) 0\<rparr>"

text \<open>
  The argument \<open>arg\<close> is the user pointer: \<open>None\<close> when the kernel cannot copy from or
  to it, \<open>Some v\<close> when it points to accessible memory holding the \<^verbatim>\<open>int\<close> \<open>v\<close>.
\<close>

definition hetero_ioctl :: "ioctl_cmd \<Rightarrow> c_int option \<Rightarrow> hetero_device \<Rightarrow> ioctl_result" where
  "hetero_ioctl cmd arg dev =
    (case cmd of
       HETERO_IOC_GET_INFO \<Rightarrow>
         (case arg of
            None \<Rightarrow> Failed EFAULT
          | Some _ \<Rightarrow>
              Returned (Some \<lparr>num_cores = 6, reg_size = int REG_SPACE_SIZE,
                              shared_size = int SHARED_MEM_SIZE, reg_base = 0,
                              shared_base = REG_SPACE_SIZE\<rparr>) dev)
     | HETERO_IOC_SEND_IPI \<Rightarrow>
         (case arg of
            None \<Rightarrow> Failed EFAULT
          | Some core_id \<Rightarrow>
              if 0 \<le> sint core_id \<and> sint core_id < 32 then
                let b = push_bit (nat (sint core_id)) (1 :: u32);
                    r = regs dev;
                    r1 = r\<lparr>ipi_trigger := b\<rparr>;
                    r2 = r1\<lparr>ipi_status := ipi_status r1 OR b\<rparr>;
                    dev1 = dev\<lparr>regs := r2, ipi_count := ipi_count dev + 1\<rparr>
                in Returned None
                     (if core_id = 0 then dev1\<lparr>core0_work := True\<rparr>
                      else if core_id = 1 then dev1\<lparr>core1_work := True\<rparr>
                      else dev1)
              else Undefined_shift)
     | HETERO_IOC_RESET \<Rightarrow>
         Returned None (dev\<lparr>regs := zeroed_regs, ipi_count := 0, msg_count := 0\<rparr>)
     | IOC_OTHER _ \<Rightarrow> Failed EINVAL)"

subsection \<open>\<^verbatim>\<open>hetero_init\<close>\<close>

text \<open>
  The identification string that \<^verbatim>\<open>sprintf\<close> writes at the start of the shared memory,
  followed by its terminating zero byte.
\<close>

definition banner :: string where
  "banner = ''6-Core Heterogeneous System Shared Memory'' @ [CHR 0x0A]"

definition c_string_bytes :: "string \<Rightarrow> u8 list" where
  "c_string_bytes s = map (\<lambda>c. of_nat (of_char c)) s @ [0]"

definition sprintf_at_start :: "string \<Rightarrow> u8 list \<Rightarrow> u8 list" where
  "sprintf_at_start s mem = c_string_bytes s @ drop (length (c_string_bytes s)) mem"

text \<open>
  The device as \<^verbatim>\<open>hetero_init\<close> leaves it once both allocations have succeeded:
  \<^verbatim>\<open>memset(mem_base, 0, TOTAL_SIZE)\<close>, the two register defaults, the identification
  string, two idle work items and two zero counters.
\<close>

definition initial_device :: hetero_device where
  "initial_device =
    \<lparr>regs = zeroed_regs\<lparr>ipi_enable := 0x03, hw_mutex_status := 0xFFFF\<rparr>,
     reg_tail = replicate (REG_SPACE_SIZE - sizeof_hetero_hw_regs) 0,
     shared_mem = sprintf_at_start banner (replicate SHARED_MEM_SIZE 0),
     core0_work = False, core1_work = False,
     ipi_count = 0, msg_count = 0\<rparr>"

text \<open>
  \<open>hdev_alloc\<close> and \<open>mem_alloc\<close> tell whether \<^verbatim>\<open>kzalloc\<close> and \<^verbatim>\<open>kmalloc\<close> return memory;
  \<open>registration\<close> is \<open>Some e\<close> when one of the four registration calls
  (\<^verbatim>\<open>alloc_chrdev_region\<close>, \<^verbatim>\<open>cdev_add\<close>, \<^verbatim>\<open>class_create\<close>, \<^verbatim>\<open>device_create\<close>) fails
  with code \<open>e\<close>, after which the memory is freed again.
\<close>

definition hetero_init :: "bool \<Rightarrow> bool \<Rightarrow> int option \<Rightarrow> errno + hetero_device" where
  "hetero_init hdev_alloc mem_alloc registration =
    (if \<not> hdev_alloc then Inl ENOMEM
     else if \<not> mem_alloc then Inl ENOMEM
     else (case registration of
             Some e \<Rightarrow> Inl (Errno e)
           | None \<Rightarrow> Inr initial_device))"

subsection \<open>Concrete device states\<close>

text \<open>
  States reached from \<open>initial_device\<close> by register writes through the mapping; the
  closed theorems below run the driver on them.
\<close>

definition ping1_data :: hetero_device where
  "ping1_data =
    initial_device\<lparr>regs := (regs initial_device)\<lparr>mbox_main_to_core1_data := 0x12345678\<rparr>\<rparr>"

definition ping1_cmd :: hetero_device where
  "ping1_cmd = ping1_data\<lparr>regs := (regs ping1_data)\<lparr>mbox_main_to_core1_cmd := 0x0001\<rparr>\<rparr>"

definition ping1_sent :: hetero_device where
  "ping1_sent =
    ping1_cmd\<lparr>regs := (regs ping1_cmd)\<lparr>ipi_trigger := 2, ipi_status := 2\<rparr>,
              ipi_count := 1, core1_work := True\<rparr>"

definition mutex_requested :: hetero_device where
  "mutex_requested =
    initial_device\<lparr>regs := (regs initial_device)\<lparr>hw_mutex_request := 0x01\<rparr>\<rparr>"

definition mutex_requested_ipi0 :: hetero_device where
  "mutex_requested_ipi0 =
    mutex_requested\<lparr>regs := (regs mutex_requested)\<lparr>ipi_trigger := 1, ipi_status := 1\<rparr>,
                    ipi_count := 1, core0_work := True\<rparr>"

definition unknown_cmd1_pending :: hetero_device where
  "unknown_cmd1_pending =
    initial_device\<lparr>regs := (regs initial_device)\<lparr>mbox_main_to_core1_cmd := 0x0002\<rparr>\<rparr>"

definition unknown_cmd0_pending :: hetero_device where
  "unknown_cmd0_pending =
    initial_device\<lparr>regs := (regs initial_device)\<lparr>mbox_main_to_core0_cmd := 0x0002\<rparr>\<rparr>"

definition status_query_pending :: hetero_device where
  "status_query_pending =
    initial_device\<lparr>regs := (regs initial_device)\<lparr>mbox_main_to_core0_cmd := 0x0010\<rparr>\<rparr>"

definition trigger0_set :: hetero_device where
  "trigger0_set = initial_device\<lparr>regs := (regs initial_device)\<lparr>ipi_trigger := 0x01\<rparr>\<rparr>"

section \<open>Auxiliary facts\<close>

text \<open>Truncating the tick expression to 32 bits keeps the constant and the low byte.\<close>

lemma ucast_or_low_byte:
  "(ucast ((c::64 word) OR (j AND 0xFF)) :: 32 word) = ucast c OR (ucast j AND 0xFF)"
  by (simp add: unsigned_or_eq unsigned_and_eq)

lemma low_byte_of_or:
  "((0x8010::32 word) OR (x AND 0xFF)) AND 0xFF = (x AND 0xFF) OR 0x10"
proof -
  have "((0x8010::32 word) OR (x AND 0xFF)) AND 0xFF =
          (0x8010 AND 0xFF) OR ((x AND 0xFF) AND 0xFF)"
    by (simp only: bit.conj_disj_distrib2)
  also have "(0x8010::32 word) AND 0xFF = 0x10"
    by simp
  also have "(x AND 0xFF) AND 0xFF = x AND (0xFF::32 word)"
    by (simp add: and.assoc)
  finally show ?thesis
    by (simp add: or.commute)
qed

text \<open>
  The structure is 4080 bytes long, 16 bytes short of the register page: the padding is
  sized from 0x4C although the fifteen registers end at 0x3C.
\<close>

lemma sizeof_hetero_hw_regs_value:
  "sizeof_hetero_hw_regs = 4080 \<and> REG_SPACE_SIZE - sizeof_hetero_hw_regs = 16"
  by (simp add: sizeof_hetero_hw_regs_def hetero_hw_regs_fields_def REG_SPACE_SIZE_def)

text \<open>
  No control operation other than the reset touches the three mutex registers.
\<close>

lemma ioctl_keeps_mutex_status:
  assumes "hetero_ioctl cmd arg dev = Returned info dev'" and "cmd \<noteq> HETERO_IOC_RESET"
  shows "hw_mutex_status (regs dev') = hw_mutex_status (regs dev) \<and>
         hw_mutex_request (regs dev') = hw_mutex_request (regs dev) \<and>
         hw_mutex_release (regs dev') = hw_mutex_release (regs dev)"
  using assms
  by (cases cmd) (auto simp add: hetero_ioctl_def Let_def split: option.splits if_splits)

section \<open>Properties\<close>

text \<open>
  C6. The byte offsets of the named registers, computed from the packed field list, equal
  the published layout: the four IPI registers at 0x00, 0x04, 0x08, 0x0C; command, data,
  status and response of channel 0 at 0x10, 0x14, 0x18, 0x1C and of channel 1 at 0x20,
  0x24, 0x28, 0x2C; mutex request, status and release at 0x30, 0x34, 0x38; the shared
  memory starts at 0x1000 and ends at 0x8FFF.
\<close>

theorem register_layout:
  "offsetof ''ipi_status'' = Some 0x00 \<and> offsetof ''ipi_trigger'' = Some 0x04 \<and>
   offsetof ''ipi_clear'' = Some 0x08 \<and> offsetof ''ipi_enable'' = Some 0x0C \<and>
   offsetof ''mbox_main_to_core0_cmd'' = Some 0x10 \<and>
   offsetof ''mbox_main_to_core0_data'' = Some 0x14 \<and>
   offsetof ''mbox_core0_to_main_status'' = Some 0x18 \<and>
   offsetof ''mbox_core0_to_main_resp'' = Some 0x1C \<and>
   offsetof ''mbox_main_to_core1_cmd'' = Some 0x20 \<and>
   offsetof ''mbox_main_to_core1_data'' = Some 0x24 \<and>
   offsetof ''mbox_core1_to_main_status'' = Some 0x28 \<and>
   offsetof ''mbox_core1_to_main_resp'' = Some 0x2C \<and>
   offsetof ''hw_mutex_request'' = Some 0x30 \<and> offsetof ''hw_mutex_status'' = Some 0x34 \<and>
   offsetof ''hw_mutex_release'' = Some 0x38 \<and>
   regs_offset = 0 \<and> shared_mem_offset = 0x1000 \<and>
   shared_mem_offset + SHARED_MEM_SIZE - 1 = 0x8FFF"
  by (simp add: offsetof_def hetero_hw_regs_fields_def regs_offset_def shared_mem_offset_def
      REG_SPACE_SIZE_def SHARED_MEM_SIZE_def)

text \<open>
  C1, as the claim states it, fails on channel 1. The caller writes the data word
  0x12345678 and the command 0x0001 into channel 1's mailbox and sends the IPI; the
  queued work runs at tick 0 and leaves 0x5200, not 0x8001, in
  \<open>mbox_core1_to_main_resp\<close>.
\<close>

theorem ping_channel1_counterexample:
  "REG_WRITE32 initial_device 0x24 0x12345678 = Some ping1_data \<and>
   REG_WRITE32 ping1_data 0x20 0x0001 = Some ping1_cmd \<and>
   hetero_ioctl HETERO_IOC_SEND_IPI (Some 1) ping1_cmd = Returned None ping1_sent \<and>
   mbox_core1_to_main_resp (regs (run_core1_work 0 ping1_sent)) = 0x5200 \<and>
   mbox_core1_to_main_resp (regs (run_core1_work 0 ping1_sent)) \<noteq> 0x8001"
  by (simp add: REG_WRITE32_def hetero_ioctl_def ping1_data_def ping1_cmd_def ping1_sent_def
      run_core1_work_def core1_response_work_def Let_def initial_device_def zeroed_regs_def)

text \<open>
  C1, amended. From any device state, writing a data word and the command 0x0001 into
  channel 0's mailbox and sending the IPI to channel 0 queues the channel's work; once
  it has run, \<open>mbox_core0_to_main_status\<close> is 1 and \<open>mbox_core0_to_main_resp\<close> is 0x8001.
  The same steps on channel 1 queue its work, which leaves \<open>mbox_core1_to_main_status\<close>
  at 1 and \<open>mbox_core1_to_main_resp\<close> at 0x5200 OR'd with the low byte of the tick
  counter.
\<close>

theorem ping_answer:
  "(\<exists>dev1 dev2 dev3.
      REG_WRITE32 dev 0x14 d = Some dev1 \<and> REG_WRITE32 dev1 0x10 0x0001 = Some dev2 \<and>
      hetero_ioctl HETERO_IOC_SEND_IPI (Some 0) dev2 = Returned None dev3 \<and>
      core0_work dev3 \<and>
      mbox_core0_to_main_status (regs (run_core0_work j dev3)) = 1 \<and>
      mbox_core0_to_main_resp (regs (run_core0_work j dev3)) = 0x8001) \<and>
   (\<exists>dev1 dev2 dev3.
      REG_WRITE32 dev 0x24 d = Some dev1 \<and> REG_WRITE32 dev1 0x20 0x0001 = Some dev2 \<and>
      hetero_ioctl HETERO_IOC_SEND_IPI (Some 1) dev2 = Returned None dev3 \<and>
      core1_work dev3 \<and>
      mbox_core1_to_main_status (regs (run_core1_work j dev3)) = 1 \<and>
      mbox_core1_to_main_resp (regs (run_core1_work j dev3)) = 0x5200 OR (ucast j AND 0xFF))"
  by (simp add: REG_WRITE32_def hetero_ioctl_def run_core0_work_def core0_response_work_def
      run_core1_work_def core1_response_work_def Let_def ucast_or_low_byte)

text \<open>
  C2, the code at the device as initialised: \<open>ipi_enable\<close> is 0x3 and
  \<open>hw_mutex_status\<close> is 0xFFFF before the reset; the reset returns 0 and leaves both
  registers at 0, so the two defaults are not restored.
\<close>

theorem reset_loses_defaults:
  "ipi_enable (regs initial_device) = 0x3 \<and> hw_mutex_status (regs initial_device) = 0xFFFF \<and>
   hetero_ioctl HETERO_IOC_RESET None initial_device =
     Returned None (initial_device\<lparr>regs := zeroed_regs\<rparr>) \<and>
   ipi_enable (regs (initial_device\<lparr>regs := zeroed_regs\<rparr>)) = 0 \<and>
   hw_mutex_status (regs (initial_device\<lparr>regs := zeroed_regs\<rparr>)) = 0"
  by (simp add: hetero_ioctl_def initial_device_def zeroed_regs_def)

text \<open>
  C3, the code at channel argument 2: the call returns 0, stores 4 in \<open>ipi_trigger\<close>,
  sets bit 2 of \<open>ipi_status\<close>, counts the IPI and queues no work.
\<close>

theorem send_ipi_channel2_accepted:
  "hetero_ioctl HETERO_IOC_SEND_IPI (Some 2) initial_device =
     Returned None
       (initial_device\<lparr>regs := (regs initial_device)\<lparr>ipi_trigger := 4, ipi_status := 4\<rparr>,
                       ipi_count := 1\<rparr>)"
  by (simp add: hetero_ioctl_def initial_device_def zeroed_regs_def Let_def)

text \<open>
  C4, as the claim states it, fails: with lock 0 free (bit 0 of \<open>hw_mutex_status\<close>
  set), writing the mask 0x01 to the request register leaves bit 0 set, and the status
  register reads 0xFFFF afterwards; it still reads 0xFFFF after an IPI to channel 0
  and the run of its queued work, and after channel 1's work; a control request with
  any other code is refused with EINVAL.
\<close>

theorem mutex_request_counterexample:
  "REG_WRITE32 initial_device HW_MUTEX_REQ 0x01 = Some mutex_requested \<and>
   bit (hw_mutex_status (regs initial_device)) 0 \<and>
   bit (hw_mutex_status (regs mutex_requested)) 0 \<and>
   REG_READ32 mutex_requested HW_MUTEX_STAT = Some 0xFFFF \<and>
   hetero_ioctl HETERO_IOC_SEND_IPI (Some 0) mutex_requested =
     Returned None mutex_requested_ipi0 \<and>
   REG_READ32 mutex_requested_ipi0 HW_MUTEX_STAT = Some 0xFFFF \<and>
   REG_READ32 (run_core0_work 0 mutex_requested_ipi0) HW_MUTEX_STAT = Some 0xFFFF \<and>
   REG_READ32 (core1_response_work 0 mutex_requested) HW_MUTEX_STAT = Some 0xFFFF \<and>
   hetero_ioctl (IOC_OTHER 0x30) (Some 0x01) mutex_requested = Failed EINVAL"
  by (simp add: REG_WRITE32_def REG_READ32_def HW_MUTEX_REQ_def HW_MUTEX_STAT_def
      mutex_requested_def mutex_requested_ipi0_def initial_device_def zeroed_regs_def
      hetero_ioctl_def Let_def run_core0_work_def core0_response_work_def
      core1_response_work_def)

text \<open>
  C4, amended. The driver performs no mutex arbitration. For every 32-bit mask, writing
  it to the request register or to the release register stores the mask there and
  leaves \<open>hw_mutex_status\<close> as it was; neither core's work, called directly or run from
  the queue, changes \<open>hw_mutex_status\<close>; every control operation other than the reset
  that returns 0 leaves \<open>hw_mutex_status\<close> as it was; the reset ignores its argument;
  and every request code other than the three the driver handles fails with EINVAL.
\<close>

theorem mutex_registers_plain_storage:
  "(\<exists>dev'. REG_WRITE32 dev HW_MUTEX_REQ m = Some dev' \<and>
           hw_mutex_request (regs dev') = m \<and>
           hw_mutex_status (regs dev') = hw_mutex_status (regs dev)) \<and>
   (\<exists>dev'. REG_WRITE32 dev HW_MUTEX_REL m = Some dev' \<and>
           hw_mutex_release (regs dev') = m \<and>
           hw_mutex_status (regs dev') = hw_mutex_status (regs dev)) \<and>
   hw_mutex_status (regs (core0_response_work j dev)) = hw_mutex_status (regs dev) \<and>
   hw_mutex_status (regs (core1_response_work j dev)) = hw_mutex_status (regs dev) \<and>
   hw_mutex_status (regs (run_core0_work j dev)) = hw_mutex_status (regs dev) \<and>
   hw_mutex_status (regs (run_core1_work j dev)) = hw_mutex_status (regs dev) \<and>
   (\<forall>cmd arg info dev'.
      hetero_ioctl cmd arg dev = Returned info dev' \<and> cmd \<noteq> HETERO_IOC_RESET \<longrightarrow>
      hw_mutex_status (regs dev') = hw_mutex_status (regs dev)) \<and>
   (\<forall>arg arg'. hetero_ioctl HETERO_IOC_RESET arg dev = hetero_ioctl HETERO_IOC_RESET arg' dev) \<and>
   (\<forall>c arg. hetero_ioctl (IOC_OTHER c) arg dev = Failed EINVAL)"
proof -
  have w: "(\<exists>dev'. REG_WRITE32 dev HW_MUTEX_REQ m = Some dev' \<and>
             hw_mutex_request (regs dev') = m \<and>
             hw_mutex_status (regs dev') = hw_mutex_status (regs dev)) \<and>
           (\<exists>dev'. REG_WRITE32 dev HW_MUTEX_REL m = Some dev' \<and>
             hw_mutex_release (regs dev') = m \<and>
             hw_mutex_status (regs dev') = hw_mutex_status (regs dev))"
    by (simp add: REG_WRITE32_def HW_MUTEX_REQ_def HW_MUTEX_REL_def Let_def)
  have k: "hw_mutex_status (regs (core0_response_work j dev)) = hw_mutex_status (regs dev) \<and>
           hw_mutex_status (regs (core1_response_work j dev)) = hw_mutex_status (regs dev) \<and>
           hw_mutex_status (regs (run_core0_work j dev)) = hw_mutex_status (regs dev) \<and>
           hw_mutex_status (regs (run_core1_work j dev)) = hw_mutex_status (regs dev)"
    by (simp add: core0_response_work_def core1_response_work_def run_core0_work_def
        run_core1_work_def Let_def)
  have i: "\<forall>cmd arg info dev'.
      hetero_ioctl cmd arg dev = Returned info dev' \<and> cmd \<noteq> HETERO_IOC_RESET \<longrightarrow>
      hw_mutex_status (regs dev') = hw_mutex_status (regs dev)"
    using ioctl_keeps_mutex_status by blast
  have r: "\<forall>arg arg'. hetero_ioctl HETERO_IOC_RESET arg dev = hetero_ioctl HETERO_IOC_RESET arg' dev"
    by (simp add: hetero_ioctl_def)
  have e: "\<forall>c arg. hetero_ioctl (IOC_OTHER c) arg dev = Failed EINVAL"
    by (simp add: hetero_ioctl_def)
  from w k i r e show ?thesis by blast
qed

text \<open>
  The amended C4 at the state with the mask 0x01 in the request register: the IPI to
  channel 0 returns 0 and \<open>hw_mutex_status\<close> is still 0xFFFF.
\<close>

theorem mutex_registers_plain_storage_witness:
  "hetero_ioctl HETERO_IOC_SEND_IPI (Some 0) mutex_requested =
     Returned None mutex_requested_ipi0 \<and>
   HETERO_IOC_SEND_IPI \<noteq> HETERO_IOC_RESET \<and>
   hw_mutex_request (regs mutex_requested) = 0x01 \<and>
   hw_mutex_status (regs mutex_requested_ipi0) = 0xFFFF"
proof -
  have h: "hetero_ioctl HETERO_IOC_SEND_IPI (Some 0) mutex_requested =
             Returned None mutex_requested_ipi0 \<and> HETERO_IOC_SEND_IPI \<noteq> HETERO_IOC_RESET"
    by (simp add: hetero_ioctl_def Let_def mutex_requested_ipi0_def mutex_requested_def
        initial_device_def zeroed_regs_def)
  have "\<forall>cmd arg info dev'.
      hetero_ioctl cmd arg mutex_requested = Returned info dev' \<and> cmd \<noteq> HETERO_IOC_RESET \<longrightarrow>
      hw_mutex_status (regs dev') = hw_mutex_status (regs mutex_requested)"
    using mutex_registers_plain_storage [of mutex_requested 0 0] by blast
  with h have "hw_mutex_status (regs mutex_requested_ipi0) =
                 hw_mutex_status (regs mutex_requested)"
    by blast
  moreover have "hw_mutex_status (regs mutex_requested) = 0xFFFF"
    "hw_mutex_request (regs mutex_requested) = 0x01"
    by (simp_all add: mutex_requested_def initial_device_def zeroed_regs_def)
  ultimately show ?thesis using h by simp
qed

text \<open>
  C5, as the claim states it, fails on channel 1: with the command 0x0002 pending in
  channel 1's mailbox, the channel's work at tick 0 writes 0x5200, not 0xFFFF.
\<close>

theorem unknown_command_channel1_counterexample:
  "mbox_main_to_core1_cmd (regs unknown_cmd1_pending) = 0x0002 \<and>
   mbox_core1_to_main_resp (regs (core1_response_work 0 unknown_cmd1_pending)) = 0x5200 \<and>
   mbox_core1_to_main_resp (regs (core1_response_work 0 unknown_cmd1_pending)) \<noteq> 0xFFFF"
  by (simp add: unknown_cmd1_pending_def core1_response_work_def Let_def initial_device_def
      zeroed_regs_def)

text \<open>
  C5, amended. For every command value other than 0x0000, 0x0001 and 0x0010 pending in
  channel 0's mailbox when channel 0's work runs, the response written to
  \<open>mbox_core0_to_main_resp\<close> is 0xFFFF; channel 1's work writes 0x5200 OR'd with the low
  byte of the tick counter, whatever the two mailboxes hold.
\<close>

theorem unknown_command_response:
  "(mbox_main_to_core0_cmd (regs dev) \<notin> {0x0000, 0x0001, 0x0010} \<longrightarrow>
      mbox_core0_to_main_resp (regs (core0_response_work j dev)) = 0xFFFF) \<and>
   mbox_core1_to_main_resp (regs (core1_response_work j dev)) = 0x5200 OR (ucast j AND 0xFF)"
  by (simp add: core0_response_work_def core1_response_work_def Let_def ucast_or_low_byte)

text \<open>
  The amended C5 at tick 7: the command 0x0002 in channel 0's mailbox is answered
  0xFFFF, and the command 0x0002 in channel 1's mailbox, with channel 0 idle, is
  answered 0x5207.
\<close>

theorem unknown_command_response_witness:
  "mbox_main_to_core0_cmd (regs unknown_cmd0_pending) \<notin> {0x0000, 0x0001, 0x0010} \<and>
   mbox_core0_to_main_resp (regs (core0_response_work 7 unknown_cmd0_pending)) = 0xFFFF \<and>
   mbox_main_to_core1_cmd (regs unknown_cmd1_pending) = 0x0002 \<and>
   mbox_main_to_core0_cmd (regs unknown_cmd1_pending) = 0 \<and>
   mbox_core1_to_main_resp (regs (core1_response_work 7 unknown_cmd1_pending)) = 0x5207"
proof -
  have h: "mbox_main_to_core0_cmd (regs unknown_cmd0_pending) \<notin> {0x0000, 0x0001, 0x0010}"
    by (simp add: unknown_cmd0_pending_def)
  have c: "mbox_main_to_core1_cmd (regs unknown_cmd1_pending) = 0x0002 \<and>
           mbox_main_to_core0_cmd (regs unknown_cmd1_pending) = 0"
    by (simp add: unknown_cmd1_pending_def initial_device_def zeroed_regs_def)
  from unknown_command_response [of unknown_cmd0_pending 7]
       unknown_command_response [of unknown_cmd1_pending 7] h c
  show ?thesis by simp
qed

text \<open>
  C7, as the claim states it, fails: with the command 0x0010 pending on channel 0 and
  the tick counter at 0, the response register receives 0x00008010, whose high 16 bits
  are 0, not 0x8010.
\<close>

theorem status_query_counterexample:
  "mbox_main_to_core0_cmd (regs status_query_pending) = 0x0010 \<and>
   mbox_core0_to_main_resp (regs (core0_response_work 0 status_query_pending)) = 0x00008010 \<and>
   drop_bit 16 (mbox_core0_to_main_resp (regs (core0_response_work 0 status_query_pending))) \<noteq>
     0x8010"
  by (simp add: status_query_pending_def core0_response_work_def Let_def initial_device_def
      zeroed_regs_def)

text \<open>
  C7, amended. When channel 0's work processes a pending command 0x0010, the 32-bit
  response is 0x8010 OR'd with the low byte of the tick counter: the bits above the low
  byte are 0x80 (so the high 16 bits are 0), and the low byte is the tick counter's low
  byte with bit 4 set.
\<close>

theorem status_query_response:
  assumes "mbox_main_to_core0_cmd (regs dev) = 0x0010"
  shows "mbox_core0_to_main_resp (regs (core0_response_work j dev)) =
           0x8010 OR (ucast j AND 0xFF) \<and>
         drop_bit 8 (mbox_core0_to_main_resp (regs (core0_response_work j dev))) = 0x80 \<and>
         drop_bit 16 (mbox_core0_to_main_resp (regs (core0_response_work j dev))) = 0 \<and>
         mbox_core0_to_main_resp (regs (core0_response_work j dev)) AND 0xFF =
           (ucast j AND 0xFF) OR 0x10"
proof -
  have r: "mbox_core0_to_main_resp (regs (core0_response_work j dev)) =
             0x8010 OR (ucast j AND 0xFF)"
    using assms by (simp add: core0_response_work_def Let_def ucast_or_low_byte)
  show ?thesis
    unfolding r by (simp add: low_byte_of_or)
qed

text \<open>The amended C7 at tick 0x1234: the response is 0x8034.\<close>

theorem status_query_response_witness:
  "mbox_main_to_core0_cmd (regs status_query_pending) = 0x0010 \<and>
   mbox_core0_to_main_resp (regs (core0_response_work 0x1234 status_query_pending)) = 0x8034 \<and>
   drop_bit 8 (mbox_core0_to_main_resp (regs (core0_response_work 0x1234 status_query_pending)))
     = 0x80"
proof -
  have h: "mbox_main_to_core0_cmd (regs status_query_pending) = 0x0010"
    by (simp add: status_query_pending_def)
  from status_query_response [OF h, of "0x1234"] h show ?thesis by simp
qed

text \<open>
  C8, as the claim states it, fails: after a successful initialisation the first byte
  of the shared memory is 0x36, the character 6 of the identification string.
\<close>

theorem shared_memory_banner_counterexample:
  "hetero_init True True None = Inr initial_device \<and>
   shared_mem initial_device ! 0 = 0x36 \<and> shared_mem initial_device ! 0 \<noteq> 0"
  by (simp add: hetero_init_def initial_device_def sprintf_at_start_def c_string_bytes_def
      banner_def SHARED_MEM_SIZE_def)

text \<open>
  C8, amended. After a successful initialisation the shared memory is 32 KiB long, its
  first 42 bytes hold the identification string, and every byte from index 42 on is
  zero.
\<close>

theorem shared_memory_after_init:
  "hetero_init True True None = Inr initial_device \<and>
   length (shared_mem initial_device) = SHARED_MEM_SIZE \<and>
   take 42 (shared_mem initial_device) = map (\<lambda>c. of_nat (of_char c)) banner \<and>
   drop 42 (shared_mem initial_device) = replicate (SHARED_MEM_SIZE - 42) 0"
proof -
  have "replicate (Suc 32725) (0::u8) = 0 # replicate 32725 0"
    by (rule replicate_Suc)
  then have "replicate 32726 (0::u8) = 0 # replicate 32725 0"
    by simp
  then show ?thesis
    by (simp add: hetero_init_def initial_device_def sprintf_at_start_def c_string_bytes_def
        banner_def SHARED_MEM_SIZE_def)
qed

text \<open>
  C9. Reset is idempotent: a second reset right after a first one returns 0 and leaves
  the whole device (every register, both counters, both channel status fields) as the
  first reset left it; both counters and both status fields are 0 there.
\<close>

theorem reset_idempotent:
  "\<exists>dev1. hetero_ioctl HETERO_IOC_RESET arg dev = Returned None dev1 \<and>
          hetero_ioctl HETERO_IOC_RESET arg' dev1 = Returned None dev1 \<and>
          ipi_count dev1 = 0 \<and> msg_count dev1 = 0 \<and>
          mbox_core0_to_main_status (regs dev1) = 0 \<and>
          mbox_core1_to_main_status (regs dev1) = 0"
  by (simp add: hetero_ioctl_def zeroed_regs_def)

text \<open>
  C10. For a channel c in {0,1}, sending the IPI assigns 1 << c to \<open>ipi_trigger\<close>, so
  the trigger bit of the other channel is clear afterwards whatever it was, and
  \<open>ipi_status\<close> is its previous value OR'd with 1 << c.
\<close>

theorem send_ipi_trigger_assigned:
  assumes "c = 0 \<or> c = 1"
  shows "\<exists>dev'. hetero_ioctl HETERO_IOC_SEND_IPI (Some c) dev = Returned None dev' \<and>
           ipi_trigger (regs dev') = push_bit (unat c) 1 \<and>
           \<not> bit (ipi_trigger (regs dev')) (1 - unat c) \<and>
           ipi_status (regs dev') = ipi_status (regs dev) OR push_bit (unat c) 1"
  using assms by (auto simp add: hetero_ioctl_def Let_def)

text \<open>
  C10 at channel 1, from a state in which the trigger bit of channel 0 is set: the
  call leaves 2 in \<open>ipi_trigger\<close>, bit 0 cleared.
\<close>

theorem send_ipi_trigger_assigned_witness:
  "((1::c_int) = 0 \<or> (1::c_int) = 1) \<and>
   bit (ipi_trigger (regs trigger0_set)) 0 \<and>
   (\<exists>dev'. hetero_ioctl HETERO_IOC_SEND_IPI (Some 1) trigger0_set = Returned None dev' \<and>
           ipi_trigger (regs dev') = 2 \<and> \<not> bit (ipi_trigger (regs dev')) 0)"
proof -
  have h: "(1::c_int) = 0 \<or> (1::c_int) = 1"
    by simp
  have b: "bit (ipi_trigger (regs trigger0_set)) 0"
    by (simp add: trigger0_set_def initial_device_def)
  from send_ipi_trigger_assigned [OF h, of trigger0_set]
  obtain dev' where
    "hetero_ioctl HETERO_IOC_SEND_IPI (Some 1) trigger0_set = Returned None dev'"
    "ipi_trigger (regs dev') = 2" "\<not> bit (ipi_trigger (regs dev')) 0"
    by auto
  with h b show ?thesis by blast
qed

end
